theory Spec2Isabelle
  imports Complex_Main
begin

section \<open>Values, frames and the stored tables\<close>

text \<open>
  A cell of a pandas frame or of an SQLite row: a missing value (NaN, NaT, pd.NA, None,
  SQL NULL), a string, or a number.  Line 174 of db.py turns every missing value into
  None before binding, so the model keeps one constructor for all of them.
\<close>

datatype cell = Null | Str string | Num real

text \<open>
  The dtype of the frame's \<open>datetime\<close> column.  db.py has two branches: line 118 for a
  timezone-aware column (with the zone of the column), line 122 for every other column,
  which it takes as naive.  A column that is not of a datetime dtype at all (strings, numbers,
  the empty object column of the frame \<open>fetch_batch\<close> builds when no symbol was fetched)
  takes the second branch too, and there the \<open>.dt\<close> accessor of line 133 raises
  AttributeError (unless \<open>to_datetime\<close> at line 125 has raised already on values it
  cannot read; the model keeps the one error for both, since either way the call ends before
  line 167).  A value is an \<open>int\<close> of nanoseconds since the epoch, as pandas stores
  it (the UTC instant for an aware column, the wall clock for a naive one), or \<open>None\<close> for
  NaT; the values of a column that is not of a datetime dtype are never read.
\<close>

datatype dtype = TzAware string | TzNaive | NotDatetime

record frow =
  dt :: "int option"
  cells :: "string \<Rightarrow> cell"

record frame =
  dt_dtype :: "dtype option"
  columns :: "string list"
  rows :: "frow list"

text \<open>
  \<open>dt_dtype = None\<close> is a frame with no \<open>datetime\<close> column; \<open>columns\<close> are
  the labels of the other columns, in order (pandas allows a label twice, and
  \<open>rename\<close> can produce that).
\<close>

record price_row =
  ticker :: cell
  datetime_utc :: cell
  datetime_local :: cell
  datetime_tr :: cell
  open_px :: cell
  high :: cell
  low :: cell
  close_px :: cell
  volume :: cell
  adjclose :: cell
  range_str :: cell
  interval :: cell
  ingested_at :: cell
  run_id :: cell

record run_row =
  r_run_id :: string
  r_started_at :: string
  r_rng :: string
  r_interval :: string
  r_n_rows :: nat
  r_note :: "string option"

record db =
  prices :: "price_row list"
  runs :: "run_row list"

datatype error =
    ValueError_no_datetime
  | ValueError_missing "string list"
  | KeyError "string list"
  | ProgrammingError
  | IntegrityError
  | AttributeError

section \<open>Formatting an instant: \<open>strftime("%Y-%m-%d %H:%M:%S")\<close>\<close>

text \<open>
  pandas formats a timestamp of the proleptic Gregorian calendar; the date of a day number
  (days since 1970-01-01) is computed here with the usual era/day-of-era arithmetic.  The
  sub-second part is dropped.  A pandas timestamp lies between the years 1677 and 2262, so
  the year has four digits.
\<close>

definition digit :: "int \<Rightarrow> char" where
  "digit n = ''0123456789'' ! nat (n mod 10)"

definition pad2 :: "int \<Rightarrow> string" where
  "pad2 n = [digit (n div 10), digit n]"

definition pad4 :: "int \<Rightarrow> string" where
  "pad4 n = [digit (n div 1000), digit (n div 100), digit (n div 10), digit n]"

definition civil_from_days :: "int \<Rightarrow> int \<times> int \<times> int" where
  "civil_from_days days =
     (let z = days + 719468;
          era = z div 146097;
          doe = z - era * 146097;
          yoe = (doe - doe div 1460 + doe div 36524 - doe div 146096) div 365;
          doy = doe - (365 * yoe + yoe div 4 - yoe div 100);
          mp = (5 * doy + 2) div 153;
          d = doy - (153 * mp + 2) div 5 + 1;
          m = (if mp < 10 then mp + 3 else mp - 9);
          y = yoe + era * 400 + (if m \<le> 2 then 1 else 0)
      in (y, m, d))"

definition strftime_secs :: "int \<Rightarrow> string" where
  "strftime_secs s =
     (case civil_from_days (s div 86400) of (y, m, d) \<Rightarrow>
        let r = s mod 86400 in
        pad4 y @ ''-'' @ pad2 m @ ''-'' @ pad2 d @ '' '' @
        pad2 (r div 3600) @ '':'' @ pad2 (r mod 3600 div 60) @ '':'' @ pad2 (r mod 60))"

definition strftime :: "int \<Rightarrow> string" where
  "strftime ns = strftime_secs (ns div 1000000000)"

section \<open>db.py: \<open>ingest_prices\<close>\<close>

subsection \<open>The three timestamp strings (lines 118 to 134)\<close>

text \<open>
  \<open>tzdb z t\<close> is the zone database that pandas consults: the offset from UTC, in
  nanoseconds, of zone \<open>z\<close> at the UTC instant \<open>t\<close>.  It is a parameter of the model.
  For an aware column \<open>tz_convert(...).tz_localize(None)\<close> gives the wall clock of the
  zone; for a naive column \<open>to_datetime(..., utc=True)\<close> reads the wall clock as UTC.
  \<open>strftime\<close> of NaT is a missing value.
\<close>

definition fmt :: "int option \<Rightarrow> cell" where
  "fmt t = (case t of None \<Rightarrow> Null | Some ns \<Rightarrow> Str (strftime ns))"

definition tz_convert :: "(string \<Rightarrow> int \<Rightarrow> int) \<Rightarrow> string \<Rightarrow> int option \<Rightarrow> int option" where
  "tz_convert tzdb z t = (case t of None \<Rightarrow> None | Some ns \<Rightarrow> Some (ns + tzdb z ns))"

definition dt_utc :: "(string \<Rightarrow> int \<Rightarrow> int) \<Rightarrow> dtype \<Rightarrow> int option \<Rightarrow> int option" where
  "dt_utc tzdb ty t = (case ty of TzAware z \<Rightarrow> t | _ \<Rightarrow> t)"

definition dt_local :: "(string \<Rightarrow> int \<Rightarrow> int) \<Rightarrow> dtype \<Rightarrow> int option \<Rightarrow> int option" where
  "dt_local tzdb ty t = (case ty of TzAware z \<Rightarrow> tz_convert tzdb z t | _ \<Rightarrow> t)"

definition dt_tr :: "(string \<Rightarrow> int \<Rightarrow> int) \<Rightarrow> dtype \<Rightarrow> int option \<Rightarrow> int option" where
  "dt_tr tzdb ty t =
     (case ty of TzAware z \<Rightarrow> tz_convert tzdb ''Europe/Istanbul'' t
               | _ \<Rightarrow> tz_convert tzdb ''Europe/Istanbul'' t)"

subsection \<open>Frame operations\<close>

definition set_cell :: "string \<Rightarrow> cell \<Rightarrow> frow \<Rightarrow> frow" where
  "set_cell c v r = r\<lparr>cells := (cells r)(c := v)\<rparr>"

text \<open>\<open>d[c] = f(row)\<close>: the column is overwritten, or appended when the label is new.\<close>

definition assign :: "string \<Rightarrow> (frow \<Rightarrow> cell) \<Rightarrow> frame \<Rightarrow> frame" where
  "assign c f d =
     d\<lparr>columns := (if c \<in> set (columns d) then columns d else columns d @ [c]),
       rows := map (\<lambda>r. set_cell c (f r) r) (rows d)\<rparr>"

text \<open>\<open>d.rename(columns={old: new})\<close>: only the label changes.\<close>

definition rename :: "string \<Rightarrow> string \<Rightarrow> frame \<Rightarrow> frame" where
  "rename old new d =
     d\<lparr>columns := map (\<lambda>c. if c = old then new else c) (columns d),
       rows := map (\<lambda>r. set_cell new (cells r old) r) (rows d)\<rparr>"

text \<open>
  \<open>d[cols]\<close> raises KeyError for the labels it does not find and returns every column
  that carries a requested label: \<open>width\<close> is the number of columns of the selection,
  hence the number of values of each tuple handed to SQLite.
\<close>

definition width :: "string list \<Rightarrow> frame \<Rightarrow> nat" where
  "width cols d = sum_list (map (\<lambda>c. count_list (columns d) c) cols)"

definition cols :: "string list" where
  "cols = [''ticker'', ''datetime_utc'', ''datetime_local'', ''datetime_tr'',
           ''open'', ''high'', ''low'', ''close'', ''volume'', ''adjclose'',
           ''range_str'', ''interval'', ''ingested_at'', ''run_id'']"

definition required :: "string list" where
  "required = [''ticker'', ''open'', ''high'', ''low'', ''close'', ''volume'']"

definition to_tuple :: "frow \<Rightarrow> price_row" where
  "to_tuple r =
     \<lparr>ticker = cells r ''ticker'', datetime_utc = cells r ''datetime_utc'',
      datetime_local = cells r ''datetime_local'', datetime_tr = cells r ''datetime_tr'',
      open_px = cells r ''open'', high = cells r ''high'', low = cells r ''low'',
      close_px = cells r ''close'', volume = cells r ''volume'',
      adjclose = cells r ''adjclose'', range_str = cells r ''range_str'',
      interval = cells r ''interval'', ingested_at = cells r ''ingested_at'',
      run_id = cells r ''run_id''\<rparr>"

subsection \<open>The upsert statement (lines 181 to 201)\<close>

text \<open>
  The conflict target is the primary key \<open>(ticker, datetime_utc, interval)\<close> of
  \<open>init_db\<close>.  \<open>ticker\<close> and \<open>datetime_utc\<close> are declared NOT NULL, \<open>interval\<close>
  is not; SQLite admits NULL in a primary key column of a rowid table and takes NULLs as
  distinct from every value, NULL included, so a row with a NULL interval conflicts with
  no row.
\<close>

definition conflicts :: "price_row \<Rightarrow> price_row \<Rightarrow> bool" where
  "conflicts s r \<longleftrightarrow>
     ticker s = ticker r \<and> datetime_utc s = datetime_utc r \<and>
     interval s = interval r \<and> interval r \<noteq> Null"

definition do_update :: "price_row \<Rightarrow> price_row \<Rightarrow> price_row" where
  "do_update s r =
     s\<lparr>open_px := open_px r, high := high r, low := low r, close_px := close_px r,
       volume := volume r, adjclose := adjclose r, range_str := range_str r,
       ingested_at := ingested_at r, run_id := run_id r\<rparr>"

definition not_null_ok :: "price_row \<Rightarrow> bool" where
  "not_null_ok r \<longleftrightarrow>
     ticker r \<noteq> Null \<and> datetime_utc r \<noteq> Null \<and> ingested_at r \<noteq> Null \<and> run_id r \<noteq> Null"

definition upsert :: "price_row \<Rightarrow> price_row list \<Rightarrow> error + price_row list" where
  "upsert r tbl =
     (if \<not> not_null_ok r then Inl IntegrityError
      else if list_ex (\<lambda>s. conflicts s r) tbl
      then Inr (map (\<lambda>s. if conflicts s r then do_update s r else s) tbl)
      else Inr (tbl @ [r]))"

text \<open>\<open>executemany\<close>: the statement runs once per tuple, in order, and stops at the first error.\<close>

fun executemany :: "price_row list \<Rightarrow> price_row list \<Rightarrow> error + price_row list" where
  "executemany [] tbl = Inr tbl"
| "executemany (r # rs) tbl =
     (case upsert r tbl of Inl e \<Rightarrow> Inl e | Inr tbl' \<Rightarrow> executemany rs tbl')"

text \<open>\<open>INSERT OR REPLACE INTO runs\<close>: the row with the same primary key is deleted, the new one inserted.\<close>

definition replace_run :: "run_row \<Rightarrow> run_row list \<Rightarrow> run_row list" where
  "replace_run n rs = filter (\<lambda>r. r_run_id r \<noteq> r_run_id n) rs @ [n]"

subsection \<open>The function\<close>

text \<open>
  \<open>uuid4\<close> is the identifier \<open>uuid.uuid4()\<close> would give and \<open>now\<close> the formatted
  clock reading of line 146; both are inputs of the model.  The result is the database
  after the call and either the exception raised or the run identifier returned: when the
  function raises, nothing has been committed and the connection's transaction is rolled
  back, so the database is the one the call started from.
\<close>

definition prepare :: "(string \<Rightarrow> int \<Rightarrow> int) \<Rightarrow> string \<Rightarrow> string \<Rightarrow> string \<Rightarrow> string \<Rightarrow> dtype \<Rightarrow> frame \<Rightarrow> frame" where
  "prepare tzdb now rid rng ivl ty df =
     (let d = assign ''datetime_utc'' (\<lambda>r. fmt (dt_utc tzdb ty (dt r))) df;
          d = assign ''datetime_local'' (\<lambda>r. fmt (dt_local tzdb ty (dt r))) d;
          d = assign ''datetime_tr'' (\<lambda>r. fmt (dt_tr tzdb ty (dt r))) d;
          d = (if ''range'' \<in> set (columns d) then rename ''range'' ''range_str'' d else d);
          d = (if ''interval'' \<notin> set (columns d) then assign ''interval'' (\<lambda>r. Str ivl) d else d);
          d = (if ''range_str'' \<notin> set (columns d) then assign ''range_str'' (\<lambda>r. Str rng) d else d);
          d = assign ''ingested_at'' (\<lambda>r. Str now) d;
          d = assign ''run_id'' (\<lambda>r. Str rid) d
      in d)"

text \<open>The tuples bound to the statement: \<open>list(map(tuple, d_db.values))\<close>.\<close>

definition d_db ::
  "(string \<Rightarrow> int \<Rightarrow> int) \<Rightarrow> string \<Rightarrow> string \<Rightarrow> string \<Rightarrow> string \<Rightarrow> dtype \<Rightarrow> frame \<Rightarrow> price_row list" where
  "d_db tzdb now rid rng ivl ty df = map to_tuple (rows (prepare tzdb now rid rng ivl ty df))"

definition ingest_prices ::
  "(string \<Rightarrow> int \<Rightarrow> int) \<Rightarrow> string \<Rightarrow> string \<Rightarrow> frame \<Rightarrow> string \<Rightarrow> string \<Rightarrow>
   string option \<Rightarrow> string option \<Rightarrow> db \<Rightarrow> db \<times> (error + string)" where
  "ingest_prices tzdb uuid4 now df rng ivl run_id_arg note con =
     (let rid = (case run_id_arg of None \<Rightarrow> uuid4 | Some r \<Rightarrow> r) in
      case dt_dtype df of
        None \<Rightarrow> (con, Inl ValueError_no_datetime)
      | Some ty \<Rightarrow>
          if ty = NotDatetime then (con, Inl AttributeError) else
          let d = prepare tzdb now rid rng ivl ty df;
              missing = filter (\<lambda>c. c \<notin> set (columns d)) required
          in if missing \<noteq> [] then (con, Inl (ValueError_missing missing))
             else if filter (\<lambda>c. c \<notin> set (columns d)) cols \<noteq> []
             then (con, Inl (KeyError (filter (\<lambda>c. c \<notin> set (columns d)) cols)))
             else
               let tuples = d_db tzdb now rid rng ivl ty df in
               if tuples \<noteq> [] \<and> width cols d \<noteq> 14 then (con, Inl ProgrammingError)
               else
                 (case executemany tuples (prices con) of
                    Inl e \<Rightarrow> (con, Inl e)
                  | Inr tbl \<Rightarrow>
                      (\<lparr>prices = tbl,
                        runs = replace_run
                          \<lparr>r_run_id = rid, r_started_at = now, r_rng = rng, r_interval = ivl,
                           r_n_rows = length tuples, r_note = note\<rparr> (runs con)\<rparr>,
                       Inr rid)))"

text \<open>\<open>init_db\<close> on a new file: the tables exist and are empty.\<close>

definition init_db :: db where
  "init_db = \<lparr>prices = [], runs = []\<rparr>"

section \<open>Predicates used in the statements\<close>

definition key :: "price_row \<Rightarrow> cell \<times> cell \<times> cell" where
  "key r = (ticker r, datetime_utc r, interval r)"

text \<open>The fields the conflict clause does not assign, and the nine it assigns.\<close>

definition kept :: "price_row \<Rightarrow> price_row \<Rightarrow> bool" where
  "kept s' s \<longleftrightarrow>
     ticker s' = ticker s \<and> datetime_utc s' = datetime_utc s \<and> interval s' = interval s \<and>
     datetime_local s' = datetime_local s \<and> datetime_tr s' = datetime_tr s"

definition overwritten :: "price_row \<Rightarrow> price_row \<Rightarrow> bool" where
  "overwritten s' r \<longleftrightarrow>
     open_px s' = open_px r \<and> high s' = high r \<and> low s' = low r \<and> close_px s' = close_px r \<and>
     volume s' = volume r \<and> adjclose s' = adjclose r \<and> range_str s' = range_str r \<and>
     ingested_at s' = ingested_at r \<and> run_id s' = run_id r"

text \<open>
  The checks of lines 167 to 173 and the arity of the bound tuples look at the labels of the
  prepared frame only, and the labels do not depend on the clock, the identifier or the zone
  database.
\<close>

definition shape_ok :: "frame \<Rightarrow> bool" where
  "shape_ok df \<longleftrightarrow>
     (let d = prepare (\<lambda>z t. 0) [] [] [] [] TzNaive df
      in filter (\<lambda>c. c \<notin> set (columns d)) required = [] \<and>
         filter (\<lambda>c. c \<notin> set (columns d)) cols = [] \<and>
         (rows df = [] \<or> width cols d = 14))"

text \<open>The keys of a table that carry an interval.\<close>

definition keyed :: "(cell \<times> cell \<times> cell) list \<Rightarrow> (cell \<times> cell \<times> cell) list" where
  "keyed ks = filter (\<lambda>k. snd (snd k) \<noteq> Null) ks"

section \<open>fetch.py: the provider's response\<close>

text \<open>
  A decoded JSON value, as \<open>r.json()\<close> returns it: Python keeps integers and floats
  apart, a list is an array, a dict an object (the pairs are the items of the dict, so the
  keys are distinct).
\<close>

datatype json =
    JNull | JBool bool | JInt int | JFloat real | JStr string
  | JArr "json list" | JObj "(string \<times> json) list"

text \<open>
  What one data request gives: \<open>sess.get\<close> raises (a connection error, a timeout), or it
  returns a response with a status code and a body that \<open>r.json()\<close> decodes
  (\<open>None\<close> when decoding raises).
\<close>

datatype reply = Raise string | Response nat "json option"

datatype exn = RequestException string | HTTPError nat | JSONDecodeError

datatype fetch_error =
    FetchFailure "exn option"
  | ProviderError json
  | EmptyResult
  | NoData
  | PyError string
  | Unmodelled

text \<open>
  \<open>FetchFailure\<close> is the RuntimeError of line 65 with the \<open>last_exc\<close> it prints,
  \<open>ProviderError\<close> that of line 69, \<open>EmptyResult\<close> that of line 73, \<open>NoData\<close> the
  ValueError of line 79; \<open>PyError\<close> is any other exception Python or pandas raises on a
  response of another shape (the string names it).
\<close>

subsection \<open>The request loop of \<open>fetch_yahoo_chart\<close> (lines 46 to 65)\<close>

definition hosts :: "string list" where
  "hosts = [''query1.finance.yahoo.com'', ''query2.finance.yahoo.com'']"

text \<open>
  One pass of the loop body: \<open>Inl\<close> is \<open>data = r.json(); break\<close>, \<open>Inr\<close> is the next
  iteration with the \<open>last_exc\<close> it carries.  A 429 goes on without touching
  \<open>last_exc\<close>; \<open>raise_for_status\<close> raises for a status from 400 to 599.
\<close>

definition attempt :: "reply \<Rightarrow> exn option \<Rightarrow> json + exn option" where
  "attempt rp last_exc =
     (case rp of
        Raise m \<Rightarrow> Inr (Some (RequestException m))
      | Response code body \<Rightarrow>
          if code = 429 then Inr last_exc
          else if 400 \<le> code \<and> code < 600 then Inr (Some (HTTPError code))
          else (case body of None \<Rightarrow> Inr (Some JSONDecodeError) | Some j \<Rightarrow> Inl j))"

text \<open>
  \<open>net k host\<close> is the reply to the \<open>k\<close>-th data request of this call when it is sent to
  \<open>host\<close>.  The loop returns the hosts it has asked, in order, \<open>data\<close> and \<open>last_exc\<close>.
\<close>

fun attempts ::
  "(nat \<Rightarrow> string \<Rightarrow> reply) \<Rightarrow> nat \<Rightarrow> string list \<Rightarrow> exn option \<Rightarrow> string list \<times> json option \<times> exn option" where
  "attempts net k [] last_exc = ([], None, last_exc)"
| "attempts net k (host # rest) last_exc =
     (case attempt (net k host) last_exc of
        Inl j \<Rightarrow> ([host], Some j, last_exc)
      | Inr l \<Rightarrow> (case attempts net (Suc k) rest l of (asked, res) \<Rightarrow> (host # asked, res)))"

subsection \<open>Reading the response (lines 67 to 84)\<close>

fun truthy :: "json \<Rightarrow> bool" where
  "truthy JNull = False"
| "truthy (JBool b) = b"
| "truthy (JInt i) = (i \<noteq> 0)"
| "truthy (JFloat x) = (x \<noteq> 0)"
| "truthy (JStr s) = (s \<noteq> [])"
| "truthy (JArr xs) = (xs \<noteq> [])"
| "truthy (JObj kv) = (kv \<noteq> [])"

text \<open>Python's \<open>a or b\<close>.\<close>

definition or_else :: "json \<Rightarrow> json \<Rightarrow> json" where
  "or_else a b = (if truthy a then a else b)"

text \<open>\<open>d.get(k, default)\<close>: only a dict has \<open>get\<close>.\<close>

fun py_get :: "json \<Rightarrow> string \<Rightarrow> json \<Rightarrow> fetch_error + json" where
  "py_get (JObj kv) k dflt = Inr (case map_of kv k of None \<Rightarrow> dflt | Some v \<Rightarrow> v)"
| "py_get j k dflt = Inl (PyError ''AttributeError'')"

text \<open>\<open>x[0]\<close>.\<close>

fun py_index0 :: "json \<Rightarrow> fetch_error + json" where
  "py_index0 (JArr (x # xs)) = Inr x"
| "py_index0 (JArr []) = Inl (PyError ''IndexError'')"
| "py_index0 (JStr (c # cs)) = Inr (JStr [c])"
| "py_index0 (JStr []) = Inl (PyError ''IndexError'')"
| "py_index0 (JObj kv) = Inl (PyError ''KeyError'')"
| "py_index0 j = Inl (PyError ''TypeError'')"

text \<open>\<open>len(x)\<close>.\<close>

fun py_len :: "json \<Rightarrow> nat option" where
  "py_len (JArr xs) = Some (length xs)"
| "py_len (JStr s) = Some (length s)"
| "py_len (JObj kv) = Some (length kv)"
| "py_len j = None"

definition bnd :: "'e + 'a \<Rightarrow> ('a \<Rightarrow> 'e + 'b) \<Rightarrow> 'e + 'b" where
  "bnd m f = (case m of Inl e \<Rightarrow> Inl e | Inr x \<Rightarrow> f x)"

record located =
  l_meta :: json
  l_tz_name :: json
  l_timestamps :: json
  l_quote_block :: json
  l_adj_list :: json

definition locate :: "json \<Rightarrow> fetch_error + located" where
  "locate data =
     bnd (py_get data ''chart'' (JObj [])) (\<lambda>chart.
     bnd (py_get chart ''error'' JNull) (\<lambda>err.
     if truthy err then Inl (ProviderError err) else
     bnd (py_get chart ''result'' JNull) (\<lambda>res.
     bnd (py_index0 (or_else res (JArr [JNull]))) (\<lambda>result.
     if \<not> truthy result then Inl EmptyResult else
     bnd (py_get result ''meta'' (JObj [])) (\<lambda>m0.
     bnd (py_get (or_else m0 (JObj [])) ''timezone'' (JStr ''UTC'')) (\<lambda>tz_name.
     bnd (py_get result ''timestamp'' JNull) (\<lambda>t0.
     if \<not> truthy (or_else t0 (JArr [])) then Inl NoData else
     bnd (py_get result ''indicators'' (JObj [])) (\<lambda>i0.
     bnd (py_get (or_else i0 (JObj [])) ''quote'' JNull) (\<lambda>q0.
     bnd (py_index0 (or_else q0 (JArr [JObj []]))) (\<lambda>q1.
     bnd (py_get (or_else i0 (JObj [])) ''adjclose'' JNull) (\<lambda>a0.
     bnd (if truthy a0 then py_index0 (or_else a0 (JArr [JObj []])) else Inr (JObj [])) (\<lambda>adj_block.
     bnd (py_get adj_block ''adjclose'' (JArr [])) (\<lambda>adj_list.
     Inr \<lparr>l_meta = or_else m0 (JObj []), l_tz_name = tz_name,
          l_timestamps = or_else t0 (JArr []), l_quote_block = or_else q1 (JObj []),
          l_adj_list = adj_list\<rparr>)))))))))))))"

subsection \<open>Building the frame (lines 86 to 115)\<close>

text \<open>
  The conversions pandas applies to one JSON value are parameters of the model:
  \<open>to_int64\<close> is the conversion to the \<open>int64\<close> dtype (\<open>None\<close> when it raises),
  \<open>to_numeric\<close> is \<open>pd.to_numeric(..., errors="coerce")\<close> (\<open>None\<close> is NaN), and
  \<open>series_tz_convert\<close> is the zone of the column after \<open>dt_index.tz_convert(tz_name)\<close>
  (\<open>None\<close> when the call raises and line 91 keeps the UTC column).
\<close>

record pandas =
  to_int64 :: "json \<Rightarrow> int option"
  to_numeric :: "json \<Rightarrow> real option"
  series_tz_convert :: "json \<Rightarrow> string option"

text \<open>
  One row of the returned frame.  \<open>b_datetime\<close> and \<open>b_datetime_tr\<close> are the instant in
  nanoseconds since the epoch (a timezone-aware value is an instant and a zone).
\<close>

record bar =
  b_datetime :: int
  b_tz :: string
  b_open :: "real option"
  b_high :: "real option"
  b_low :: "real option"
  b_close :: "real option"
  b_volume :: "real option"
  b_adjclose :: "real option"
  b_ticker :: string
  b_range :: string
  b_interval :: string
  b_datetime_tr :: int

text \<open>
  The values of \<open>pd.Series(x)\<close> under the default index: the elements of a list, nothing
  for None, one value for a scalar.
\<close>

fun series_values :: "json \<Rightarrow> json list" where
  "series_values (JArr xs) = xs"
| "series_values JNull = []"
| "series_values j = [j]"

text \<open>\<open>pd.to_datetime(..., unit="s", utc=True)\<close>: nanoseconds, within the range of a timestamp.\<close>

definition to_datetime_s :: "int \<Rightarrow> int option" where
  "to_datetime_s s =
     (if - 9223372036854775807 \<le> s * 1000000000 \<and> s * 1000000000 \<le> 9223372036854775807
      then Some (s * 1000000000) else None)"

text \<open>
  \<open>df[col] = series\<close> aligns the series with the rows of the frame on the index: a short
  series is padded with NaN, a long one is cut.  A series built from a dict is indexed by the
  keys of the dict, which meet no row.
\<close>

definition align :: "nat \<Rightarrow> 'a option list \<Rightarrow> 'a option list" where
  "align n vs = take n (vs @ replicate n None)"

definition numeric_column :: "pandas \<Rightarrow> nat \<Rightarrow> json \<Rightarrow> real option list" where
  "numeric_column pd n v =
     (case v of JObj kv \<Rightarrow> replicate n None
              | _ \<Rightarrow> align n (map (to_numeric pd) (series_values v)))"

definition quote_column :: "pandas \<Rightarrow> nat \<Rightarrow> json \<Rightarrow> string \<Rightarrow> fetch_error + real option list" where
  "quote_column pd n quote_block col =
     bnd (py_get quote_block col (JArr [])) (\<lambda>v. Inr (numeric_column pd n v))"

definition adj_column :: "pandas \<Rightarrow> nat \<Rightarrow> json \<Rightarrow> fetch_error + real option list" where
  "adj_column pd n adj_list =
     (if truthy adj_list
      then (case py_len adj_list of
              None \<Rightarrow> Inl (PyError ''TypeError'')
            | Some l \<Rightarrow> if l = n then Inr (numeric_column pd n adj_list)
                        else Inr (replicate n None))
      else Inr (replicate n None))"

text \<open>
  A timestamp value that is a JSON object would index the frame by the keys of the object;
  the model does not follow pandas there (\<open>Unmodelled\<close>).  \<open>sort_values\<close> is modelled by
  a stable sort, which pandas does not promise for equal instants.
\<close>

definition make_rows ::
  "string \<Rightarrow> string \<Rightarrow> string \<Rightarrow> string \<Rightarrow> int list \<Rightarrow> real option list \<Rightarrow> real option list \<Rightarrow>
   real option list \<Rightarrow> real option list \<Rightarrow> real option list \<Rightarrow> real option list \<Rightarrow> bar list" where
  "make_rows zone symbol rng ivl dts opens highs lows closes volumes adjs =
     map (\<lambda>i. \<lparr>b_datetime = dts ! i, b_tz = zone,
                 b_open = opens ! i, b_high = highs ! i, b_low = lows ! i,
                 b_close = closes ! i, b_volume = volumes ! i,
                 b_adjclose = adjs ! i, b_ticker = symbol, b_range = rng,
                 b_interval = ivl, b_datetime_tr = dts ! i\<rparr>) [0..<length dts]"

definition build :: "pandas \<Rightarrow> string \<Rightarrow> string \<Rightarrow> string \<Rightarrow> located \<Rightarrow> fetch_error + bar list \<times> json" where
  "build pd symbol rng ivl loc =
     (case l_timestamps loc of
        JObj kv \<Rightarrow> Inl Unmodelled
      | _ \<Rightarrow>
        (case those (map (to_int64 pd) (series_values (l_timestamps loc))) of
           None \<Rightarrow> Inl (PyError ''int64'')
         | Some secs \<Rightarrow>
           (case those (map to_datetime_s secs) of
              None \<Rightarrow> Inl (PyError ''OutOfBoundsDatetime'')
            | Some dts \<Rightarrow>
                let n = length dts;
                    zone = (case series_tz_convert pd (l_tz_name loc) of None \<Rightarrow> ''UTC'' | Some z \<Rightarrow> z)
                in
                bnd (quote_column pd n (l_quote_block loc) ''open'') (\<lambda>opens.
                bnd (quote_column pd n (l_quote_block loc) ''high'') (\<lambda>highs.
                bnd (quote_column pd n (l_quote_block loc) ''low'') (\<lambda>lows.
                bnd (quote_column pd n (l_quote_block loc) ''close'') (\<lambda>closes.
                bnd (quote_column pd n (l_quote_block loc) ''volume'') (\<lambda>volumes.
                bnd (adj_column pd n (l_adj_list loc)) (\<lambda>adjs.
                Inr (sort_key b_datetime
                       (make_rows zone symbol rng ivl dts opens highs lows closes volumes adjs),
                     l_meta loc))))))))))"

definition fetch_yahoo_chart ::
  "pandas \<Rightarrow> (nat \<Rightarrow> string \<Rightarrow> reply) \<Rightarrow> string \<Rightarrow> string \<Rightarrow> string \<Rightarrow> fetch_error + bar list \<times> json" where
  "fetch_yahoo_chart pd net symbol rng ivl =
     (case attempts net 0 (hosts @ hosts) None of
        (asked, data, last_exc) \<Rightarrow>
          (case data of
             None \<Rightarrow> Inl (FetchFailure last_exc)
           | Some JNull \<Rightarrow> Inl (FetchFailure last_exc)
           | Some d \<Rightarrow> bnd (locate d) (build pd symbol rng ivl)))"

section \<open>fetch.py: \<open>fetch_batch\<close>\<close>

text \<open>
  \<open>world i\<close> is the network as the \<open>i\<close>-th call of \<open>fetch_yahoo_chart\<close> finds it.  The
  loop keeps the frames, the two dicts and the lines it prints: one per symbol, saying
  whether the fetch returned (with its number of rows) or raised.
\<close>

datatype log_line = OK string nat | ERR string fetch_error




section \<open>The request loop, said in words\<close>

text \<open>
  An attempt yields a body when it returns a response whose status is neither 429 nor an
  error status and whose body decodes; it raises when \<open>sess.get\<close>, \<open>raise_for_status\<close>
  or \<open>r.json()\<close> raises.  A 429 does neither.
\<close>

definition yields :: "reply \<Rightarrow> json option" where
  "yields rp =
     (case rp of
        Raise m \<Rightarrow> None
      | Response code body \<Rightarrow> if code = 429 \<or> (400 \<le> code \<and> code < 600) then None else body)"

definition raised :: "reply \<Rightarrow> exn option" where
  "raised rp =
     (case rp of
        Raise m \<Rightarrow> Some (RequestException m)
      | Response code body \<Rightarrow>
          if code = 429 then None
          else if 400 \<le> code \<and> code < 600 then Some (HTTPError code)
          else (case body of None \<Rightarrow> Some JSONDecodeError | Some j \<Rightarrow> None))"

text \<open>The replies to requests \<open>k, k + 1, ...\<close> sent to the hosts of a list, one each.\<close>

fun replies :: "(nat \<Rightarrow> string \<Rightarrow> reply) \<Rightarrow> nat \<Rightarrow> string list \<Rightarrow> reply list" where
  "replies net k [] = []"
| "replies net k (host # rest) = net k host # replies net (Suc k) rest"

text \<open>The last exception among a list of replies, or the given one when none raised.\<close>

fun last_raised :: "exn option \<Rightarrow> reply list \<Rightarrow> exn option" where
  "last_raised l [] = l"
| "last_raised l (rp # rps) = last_raised (case raised rp of None \<Rightarrow> l | Some e \<Rightarrow> Some e) rps"

text \<open>The number of attempts before the first that yields a body.\<close>

definition failures :: "reply list \<Rightarrow> nat" where
  "failures rps = length (takeWhile (\<lambda>rp. yields rp = None) rps)"

section \<open>The batch, said in words\<close>

fun line_symbol :: "log_line \<Rightarrow> string" where
  "line_symbol (OK s n) = s"
| "line_symbol (ERR s e) = s"

text \<open>What the \<open>j\<close>-th symbol of a batch contributes: a printed line, and a frame when its fetch returns.\<close>

definition line_of :: "string \<Rightarrow> fetch_error + bar list \<times> json \<Rightarrow> log_line" where
  "line_of s res = (case res of Inl e \<Rightarrow> ERR s e | Inr (df_sym, meta) \<Rightarrow> OK s (length df_sym))"


section \<open>Places in the response, said in words\<close>

text \<open>
  A path into a JSON value: the member of an object under a key, the element of an array at an
  index.  The interface documents the timestamps at \<open>chart.result[0].timestamp\<close> and the
  adjusted closes at \<open>chart.result[0].indicators.adjclose[0].adjclose\<close>.
\<close>

datatype path_step = Key string | Idx nat

fun step :: "json \<Rightarrow> path_step \<Rightarrow> json option" where
  "step (JObj kv) (Key k) = map_of kv k"
| "step (JArr xs) (Idx n) = (if n < length xs then Some (xs ! n) else None)"
| "step j s = None"

fun at_path :: "json \<Rightarrow> path_step list \<Rightarrow> json option" where
  "at_path j [] = Some j"
| "at_path j (s # p) = (case step j s of None \<Rightarrow> None | Some x \<Rightarrow> at_path x p)"

definition result_path :: "path_step list" where
  "result_path = [Key ''chart'', Key ''result'', Idx 0]"

definition timestamp_path :: "path_step list" where
  "timestamp_path = result_path @ [Key ''timestamp'']"


section \<open>Concrete inputs\<close>

text \<open>A zone database with Istanbul three hours ahead of UTC and every other zone at UTC.\<close>

definition tz_fixed :: "string \<Rightarrow> int \<Rightarrow> int" where
  "tz_fixed z t = (if z = ''Europe/Istanbul'' then 10800000000000 else 0)"

definition cells_of :: "(string \<times> cell) list \<Rightarrow> string \<Rightarrow> cell" where
  "cells_of kv c = (case map_of kv c of None \<Rightarrow> Null | Some v \<Rightarrow> v)"

definition bar_cells :: "string \<Rightarrow> cell" where
  "bar_cells = cells_of [(''ticker'', Str ''THYAO.IS''), (''open'', Num 10), (''high'', Num 11),
     (''low'', Num 9), (''close'', Num 10), (''volume'', Num 1000)]"

definition ohlcv :: "string list" where
  "ohlcv = [''ticker'', ''open'', ''high'', ''low'', ''close'', ''volume'', ''adjclose'']"

definition frame_naive :: frame where
  "frame_naive = \<lparr>dt_dtype = Some TzNaive, columns = ohlcv,
     rows = [\<lparr>dt = Some 1700000000000000000, cells = bar_cells\<rparr>]\<rparr>"

definition frame_aware :: frame where
  "frame_aware = \<lparr>dt_dtype = Some (TzAware ''Europe/Istanbul''), columns = ohlcv,
     rows = [\<lparr>dt = Some 1700000000000000000, cells = bar_cells\<rparr>]\<rparr>"


definition frame_null_interval :: frame where
  "frame_null_interval = \<lparr>dt_dtype = Some TzNaive, columns = ohlcv @ [''interval''],
     rows = [\<lparr>dt = Some 1700000000000000000, cells = bar_cells\<rparr>]\<rparr>"

definition row_aware :: price_row where
  "row_aware =
     \<lparr>ticker = Str ''THYAO.IS'', datetime_utc = Str ''2023-11-14 22:13:20'',
      datetime_local = Str ''2023-11-15 01:13:20'', datetime_tr = Str ''2023-11-15 01:13:20'',
      open_px = Num 10, high = Num 11, low = Num 9, close_px = Num 10, volume = Num 1000,
      adjclose = Null, range_str = Str ''60d'', interval = Str ''5m'',
      ingested_at = Str ''2024-01-01 00:00:00'', run_id = Str ''u1''\<rparr>"

definition run_one :: run_row where
  "run_one = \<lparr>r_run_id = ''u1'', r_started_at = ''2024-01-01 00:00:00'', r_rng = ''60d'',
               r_interval = ''5m'', r_n_rows = 1, r_note = None\<rparr>"

definition db_aware :: db where
  "db_aware = \<lparr>prices = [row_aware], runs = [run_one]\<rparr>"

definition db_again :: db where
  "db_again =
     \<lparr>prices = [row_aware\<lparr>ingested_at := Str ''2024-01-02 00:00:00''\<rparr>],
      runs = [run_one\<lparr>r_started_at := ''2024-01-02 00:00:00''\<rparr>]\<rparr>"

definition db_second :: db where
  "db_second =
     \<lparr>prices = [row_aware\<lparr>ingested_at := Str ''2024-01-02 00:00:00'', run_id := Str ''u2''\<rparr>],
      runs = [run_one, run_one\<lparr>r_run_id := ''u2'', r_started_at := ''2024-01-02 00:00:00''\<rparr>]\<rparr>"

definition db_third :: db where
  "db_third =
     \<lparr>prices = [row_aware\<lparr>ingested_at := Str ''2024-01-03 00:00:00'', run_id := Str ''u3''\<rparr>],
      runs = [run_one, run_one\<lparr>r_run_id := ''u2'', r_started_at := ''2024-01-02 00:00:00''\<rparr>,
              run_one\<lparr>r_run_id := ''u3'', r_started_at := ''2024-01-03 00:00:00''\<rparr>]\<rparr>"

definition row_naive :: price_row where
  "row_naive = row_aware\<lparr>datetime_local := Str ''2023-11-14 22:13:20'',
     ingested_at := Str ''2024-01-02 00:00:00'', run_id := Str ''u2''\<rparr>"

definition db_fresh :: db where
  "db_fresh = \<lparr>prices = [row_naive],
     runs = [run_one\<lparr>r_run_id := ''u2'', r_started_at := ''2024-01-02 00:00:00''\<rparr>]\<rparr>"

definition row_null :: price_row where
  "row_null = row_aware\<lparr>datetime_local := Str ''2023-11-14 22:13:20'', interval := Null\<rparr>"

definition db_null1 :: db where
  "db_null1 = \<lparr>prices = [row_null], runs = [run_one]\<rparr>"

definition db_null2 :: db where
  "db_null2 =
     \<lparr>prices = [row_null, row_null\<lparr>ingested_at := Str ''2024-01-02 00:00:00'', run_id := Str ''u2''\<rparr>],
      runs = [run_one, run_one\<lparr>r_run_id := ''u2'', r_started_at := ''2024-01-02 00:00:00''\<rparr>]\<rparr>"

definition db_daily :: db where
  "db_daily = \<lparr>prices = [row_aware\<lparr>interval := Str ''1d''\<rparr>], runs = [run_one]\<rparr>"

definition db_two :: db where
  "db_two =
     \<lparr>prices = [row_aware\<lparr>interval := Str ''1d''\<rparr>, row_naive],
      runs = [run_one, run_one\<lparr>r_run_id := ''u2'', r_started_at := ''2024-01-02 00:00:00''\<rparr>]\<rparr>"

definition pd_plain :: pandas where
  "pd_plain =
     \<lparr>to_int64 = (\<lambda>j. case j of JInt i \<Rightarrow> Some i | _ \<Rightarrow> None),
      to_numeric = (\<lambda>j. case j of JInt i \<Rightarrow> Some (of_int i) | JFloat x \<Rightarrow> Some x | _ \<Rightarrow> None),
      series_tz_convert = (\<lambda>j. None)\<rparr>"

text \<open>The response of the specification's example: one timestamp, one quote, no adjclose.\<close>

definition chart_example :: json where
  "chart_example =
     JObj [(''chart'', JObj [(''result'', JArr [JObj
       [(''timestamp'', JArr [JInt 1700000000]),
        (''indicators'', JObj [(''quote'', JArr [JObj
           [(''open'', JArr [JFloat 10.5]), (''high'', JArr [JFloat 11.0]),
            (''low'', JArr [JFloat 10.0]), (''close'', JArr [JFloat 10.8]),
            (''volume'', JArr [JInt 1000])]])])]]),
       (''error'', JNull)])]"

text \<open>Three timestamps, quote arrays of other lengths, and an adjclose array of length three.\<close>

definition chart_ragged :: json where
  "chart_ragged =
     JObj [(''chart'', JObj [(''result'', JArr [JObj
       [(''meta'', JObj [(''timezone'', JStr ''Europe/Istanbul'')]),
        (''timestamp'', JArr [JInt 1700000600, JInt 1700000000, JInt 1700000300]),
        (''indicators'', JObj
           [(''quote'', JArr [JObj
              [(''open'', JArr [JInt 1, JInt 2, JInt 3, JInt 4, JInt 5]),
               (''high'', JArr [JInt 7]),
               (''volume'', JArr [])]]),
            (''adjclose'', JArr [JObj [(''adjclose'', JArr [JInt 30, JInt 10, JInt 20])]])])]]),
       (''error'', JNull)])]"

definition net_of :: "json \<Rightarrow> nat \<Rightarrow> string \<Rightarrow> reply" where
  "net_of d k host = Response 200 (Some d)"

definition net_down :: "nat \<Rightarrow> string \<Rightarrow> reply" where
  "net_down k host = Raise ''timeout''"

definition net_flaky :: "nat \<Rightarrow> string \<Rightarrow> reply" where
  "net_flaky k host =
     (if k = 0 then Raise ''timeout'' else if k = 1 then Response 429 None
      else Response 200 (Some chart_example))"





section \<open>The upsert statement: what a run of it does to the table\<close>

lemma conflicts_key: "conflicts s r \<longleftrightarrow> key s = key r \<and> interval r \<noteq> Null"
  by (auto simp: conflicts_def key_def)

lemma key_do_update [simp]: "key (do_update s r) = key s"
  by (simp add: key_def do_update_def)

lemma conflicts_do_update [simp]: "conflicts (do_update s r) = conflicts s"
  by (rule ext) (simp add: conflicts_def do_update_def)

lemma do_update_twice [simp]: "do_update (do_update s r) x = do_update s x"
  by (simp add: do_update_def)

lemma kept_do_update: "kept (do_update s r) s"
  by (simp add: kept_def do_update_def)

lemma overwritten_do_update: "overwritten (do_update s r) r"
  by (simp add: overwritten_def do_update_def)

lemma upsert_Inr_iff: "(\<exists>t. upsert r tbl = Inr t) \<longleftrightarrow> not_null_ok r"
  by (simp add: upsert_def)

lemma upsert_length: "upsert r tbl = Inr t \<Longrightarrow> length tbl \<le> length t"
  by (auto simp: upsert_def split: if_splits)

lemma upsert_nth:
  "upsert r tbl = Inr t \<Longrightarrow> i < length tbl \<Longrightarrow>
   t ! i = (if conflicts (tbl ! i) r then do_update (tbl ! i) r else tbl ! i)"
  by (auto simp: upsert_def list_ex_iff nth_append split: if_splits)

lemma executemany_Inr_iff:
  "(\<exists>t. executemany rs tbl = Inr t) \<longleftrightarrow> (\<forall>r \<in> set rs. not_null_ok r)"
proof (induction rs arbitrary: tbl)
  case Nil
  then show ?case by simp
next
  case (Cons r rs)
  show ?case
  proof (cases "upsert r tbl")
    case (Inl e)
    then have "\<not> not_null_ok r" using upsert_Inr_iff [of r tbl] by auto
    with Inl show ?thesis by simp
  next
    case (Inr t1)
    then have "not_null_ok r" using upsert_Inr_iff [of r tbl] by auto
    with Inr Cons.IH [of t1] show ?thesis by simp
  qed
qed

lemma executemany_length: "executemany rs tbl = Inr t \<Longrightarrow> length tbl \<le> length t"
proof (induction rs arbitrary: tbl)
  case Nil
  then show ?case by simp
next
  case (Cons r rs)
  then show ?case
    by (auto split: sum.splits dest!: upsert_length) fastforce
qed

lemma executemany_nth:
  "executemany rs tbl = Inr t \<Longrightarrow> i < length tbl \<Longrightarrow>
   t ! i = (case filter (conflicts (tbl ! i)) rs of
              [] \<Rightarrow> tbl ! i
            | c # cs \<Rightarrow> do_update (tbl ! i) (last (c # cs)))"
proof (induction rs arbitrary: tbl)
  case Nil
  then show ?case by simp
next
  case (Cons r rs)
  from Cons.prems obtain t1 where u: "upsert r tbl = Inr t1" and e: "executemany rs t1 = Inr t"
    by (auto split: sum.splits)
  from u Cons.prems(2) have i1: "i < length t1" using upsert_length by fastforce
  have n1: "t1 ! i = (if conflicts (tbl ! i) r then do_update (tbl ! i) r else tbl ! i)"
    using upsert_nth [OF u Cons.prems(2)] .
  have f: "filter (conflicts (t1 ! i)) rs = filter (conflicts (tbl ! i)) rs"
    by (simp add: n1)
  show ?case
    using Cons.IH [OF e i1] by (simp add: f n1 split: list.splits)
qed


lemma map_key_update:
  "map key (map (\<lambda>s. if conflicts s r then do_update s r else s) tbl) = map key tbl"
  by (induction tbl) simp_all

lemma list_ex_conflicts:
  "list_ex (\<lambda>s. conflicts s r) tbl \<longleftrightarrow> key r \<in> set (map key tbl) \<and> interval r \<noteq> Null"
  by (induction tbl) (auto simp: conflicts_key)

lemma upsert_map_key:
  "upsert r tbl = Inr t \<Longrightarrow>
   map key t = map key tbl @ (if key r \<in> set (map key tbl) \<and> interval r \<noteq> Null then [] else [key r])"
  unfolding upsert_def list_ex_conflicts
  by (auto simp: map_key_update split: if_splits)

lemma upsert_keys_mono: "upsert r tbl = Inr t \<Longrightarrow> set (map key tbl) \<subseteq> set (map key t)"
  by (drule upsert_map_key) simp

lemma upsert_covers: "upsert r tbl = Inr t \<Longrightarrow> key r \<in> set (map key t)"
  by (drule upsert_map_key) (simp split: if_splits)

lemma executemany_keys_mono:
  "executemany rs tbl = Inr t \<Longrightarrow> set (map key tbl) \<subseteq> set (map key t)"
proof (induction rs arbitrary: tbl)
  case Nil
  then show ?case by simp
next
  case (Cons r rs)
  from Cons.prems obtain t1 where u: "upsert r tbl = Inr t1" and e: "executemany rs t1 = Inr t"
    by (auto split: sum.splits)
  from upsert_keys_mono [OF u] Cons.IH [OF e] show ?case by blast
qed

lemma executemany_covers:
  "executemany rs tbl = Inr t \<Longrightarrow> r \<in> set rs \<Longrightarrow> key r \<in> set (map key t)"
proof (induction rs arbitrary: tbl)
  case Nil
  then show ?case by simp
next
  case (Cons a rs)
  from Cons.prems obtain t1 where u: "upsert a tbl = Inr t1" and e: "executemany rs t1 = Inr t"
    by (auto split: sum.splits)
  show ?case
  proof (cases "r = a")
    case True
    with upsert_covers [OF u] executemany_keys_mono [OF e] show ?thesis by blast
  next
    case False
    with Cons.prems(2) have "r \<in> set rs" by simp
    from Cons.IH [OF e this] show ?thesis .
  qed
qed

lemma executemany_same_keys:
  "executemany rs tbl = Inr t \<Longrightarrow>
   \<forall>r \<in> set rs. key r \<in> set (map key tbl) \<and> interval r \<noteq> Null \<Longrightarrow>
   map key t = map key tbl"
proof (induction rs arbitrary: tbl)
  case Nil
  then show ?case by simp
next
  case (Cons a rs)
  from Cons.prems(1) obtain t1 where u: "upsert a tbl = Inr t1" and e: "executemany rs t1 = Inr t"
    by (auto split: sum.splits)
  from Cons.prems(2) upsert_map_key [OF u] have k: "map key t1 = map key tbl" by simp
  from Cons.prems(2) k have "\<forall>r \<in> set rs. key r \<in> set (map key t1) \<and> interval r \<noteq> Null" by simp
  from Cons.IH [OF e this] k show ?case by simp
qed

lemma columns_assign [simp]: "set (columns (assign c f d)) = insert c (set (columns d))"
  by (auto simp: assign_def)

lemma rows_assign [simp]: "rows (assign c f d) = map (\<lambda>r. set_cell c (f r) r) (rows d)"
  by (simp add: assign_def)

lemma dt_dtype_assign [simp]: "dt_dtype (assign c f d) = dt_dtype d"
  by (simp add: assign_def)

lemma columns_rename [simp]:
  "set (columns (rename old new d)) =
     (if old \<in> set (columns d) then insert new (set (columns d) - {old}) else set (columns d))"
  by (auto simp: rename_def)

lemma rows_rename [simp]: "rows (rename old new d) = map (\<lambda>r. set_cell new (cells r old) r) (rows d)"
  by (simp add: rename_def)

lemma cells_set_cell [simp]: "cells (set_cell c v r) c' = (if c' = c then v else cells r c')"
  by (simp add: set_cell_def)

lemma dt_set_cell [simp]: "dt (set_cell c v r) = dt r"
  by (simp add: set_cell_def)

lemma length_rows_prepare [simp]: "length (rows (prepare tzdb now rid rng ivl ty df)) = length (rows df)"
  by (simp add: prepare_def Let_def)





lemma length_d_db [simp]: "length (d_db tzdb now rid rng ivl ty df) = length (rows df)"
  by (simp add: d_db_def)

lemma d_db_keys:
  "map key (d_db tzdb now rid rng ivl ty df) = map key (d_db tzdb now' rid' rng ivl ty df)"
  by (simp add: d_db_def prepare_def Let_def to_tuple_def key_def)


lemma columns_assign_indep: "columns (assign c f d) = columns (assign c g d)"
  by (simp add: assign_def)

lemma columns_prepare_indep:
  "columns (prepare tzdb now rid rng ivl ty df) = columns (prepare tzdb' now' rid' rng' ivl' ty' df)"
proof -
  have a: "\<And>c f d. columns (assign c f d) = (if c \<in> set (columns d) then columns d else columns d @ [c])"
    by (simp add: assign_def)
  have r: "\<And>d. columns (rename ''range'' ''range_str'' d) =
             map (\<lambda>c. if c = ''range'' then ''range_str'' else c) (columns d)"
    by (simp add: rename_def)
  show ?thesis
    by (simp only: prepare_def Let_def a r if_distrib [of columns])
qed

lemma not_null_ok_d_db:
  "list_all not_null_ok (d_db tzdb now rid rng ivl ty df) =
   list_all not_null_ok (d_db tzdb now' rid' rng ivl ty df)"
  by (simp add: d_db_def prepare_def Let_def to_tuple_def not_null_ok_def list_all_iff)

lemma executemany_ok: "(\<exists>t. executemany rs tbl = Inr t) \<longleftrightarrow> list_all not_null_ok rs"
  by (simp add: executemany_Inr_iff list_all_iff)

lemma ingest_prices_InrD:
  assumes "ingest_prices tzdb uuid4 now df rng ivl a note con = (con', Inr r)"
      and "dt_dtype df = Some ty"
  shows "r = (case a of None \<Rightarrow> uuid4 | Some x \<Rightarrow> x)"
    and "executemany (d_db tzdb now r rng ivl ty df) (prices con) = Inr (prices con')"
    and "runs con' = replace_run \<lparr>r_run_id = r, r_started_at = now, r_rng = rng, r_interval = ivl,
                                   r_n_rows = length (rows df), r_note = note\<rparr> (runs con)"
    and "ty \<noteq> NotDatetime"
  using assms
  by (auto simp: ingest_prices_def Let_def split: if_splits sum.splits)

lemma kept_refl [simp]: "kept s s"
  by (simp add: kept_def)

lemma executemany_row:
  assumes "executemany rs tbl = Inr t" and "i < length tbl"
  shows "i < length t \<and> kept (t ! i) (tbl ! i) \<and>
         (case filter (conflicts (tbl ! i)) rs of
            [] \<Rightarrow> t ! i = tbl ! i
          | c # cs \<Rightarrow> overwritten (t ! i) (last (c # cs)))"
proof -
  from executemany_length [OF assms(1)] assms(2) have "i < length t" by simp
  moreover from executemany_nth [OF assms]
  have "kept (t ! i) (tbl ! i)"
    by (simp add: kept_do_update split: list.splits)
  moreover from executemany_nth [OF assms]
  have "case filter (conflicts (tbl ! i)) rs of
            [] \<Rightarrow> t ! i = tbl ! i
          | c # cs \<Rightarrow> overwritten (t ! i) (last (c # cs))"
    by (simp add: overwritten_do_update split: list.splits)
  ultimately show ?thesis by simp
qed



lemma shape_ok_prepare:
  "shape_ok df \<longleftrightarrow>
     filter (\<lambda>c. c \<notin> set (columns (prepare tzdb now rid rng ivl ty df))) required = [] \<and>
     filter (\<lambda>c. c \<notin> set (columns (prepare tzdb now rid rng ivl ty df))) cols = [] \<and>
     (rows df = [] \<or> width cols (prepare tzdb now rid rng ivl ty df) = 14)"
  unfolding shape_ok_def Let_def width_def
  by (simp only: columns_prepare_indep [of tzdb now rid rng ivl ty df "\<lambda>z t. 0" "[]" "[]" "[]" "[]" TzNaive])

lemma d_db_Nil: "d_db tzdb now rid rng ivl ty df = [] \<longleftrightarrow> rows df = []"
  using length_d_db [of tzdb now rid rng ivl ty df] by (metis length_0_conv)

lemma ingest_prices_Inr_iff:
  "ingest_prices tzdb uuid4 now df rng ivl a note con = (con', Inr r) \<longleftrightarrow>
     (\<exists>ty t. dt_dtype df = Some ty \<and> ty \<noteq> NotDatetime \<and> shape_ok df \<and>
        r = (case a of None \<Rightarrow> uuid4 | Some x \<Rightarrow> x) \<and>
        executemany (d_db tzdb now r rng ivl ty df) (prices con) = Inr t \<and>
        con' = \<lparr>prices = t,
                runs = replace_run \<lparr>r_run_id = r, r_started_at = now, r_rng = rng, r_interval = ivl,
                                    r_n_rows = length (rows df), r_note = note\<rparr> (runs con)\<rparr>)"
proof (cases "dt_dtype df")
  case None
  then show ?thesis by (simp add: ingest_prices_def Let_def)
next
  case (Some ty)
  let ?rid = "case a of None \<Rightarrow> uuid4 | Some x \<Rightarrow> x"
  note s = shape_ok_prepare [of df tzdb now ?rid rng ivl ty]
  show ?thesis
  proof (cases "ty = NotDatetime")
    case True
    with Some show ?thesis by (simp add: ingest_prices_def Let_def)
  next
    case nd: False
    show ?thesis
    proof (cases "shape_ok df")
      case True
      with s Some nd show ?thesis
        by (auto simp: ingest_prices_def Let_def d_db_Nil split: sum.splits)
    next
      case False
      with s Some nd show ?thesis
        by (auto simp: ingest_prices_def Let_def d_db_Nil split: sum.splits)
    qed
  qed
qed

lemma interval_key: "interval t = snd (snd (key t))"
  by (simp add: key_def)

lemma kept_trans: "kept a b \<Longrightarrow> kept b c \<Longrightarrow> kept a c"
  by (simp add: kept_def)

lemma upsert_new_row:
  "upsert r tbl = Inr t \<Longrightarrow> length tbl \<le> i \<Longrightarrow> i < length t \<Longrightarrow> t ! i = r"
  by (auto simp: upsert_def nth_append split: if_splits)

lemma executemany_new_rows:
  "executemany rs tbl = Inr t \<Longrightarrow> length tbl \<le> i \<Longrightarrow> i < length t \<Longrightarrow>
   \<exists>r \<in> set rs. kept (t ! i) r"
proof (induction rs arbitrary: tbl)
  case Nil
  then show ?case by simp
next
  case (Cons a rs)
  from Cons.prems(1) obtain t1 where u: "upsert a tbl = Inr t1" and e: "executemany rs t1 = Inr t"
    by (auto split: sum.splits)
  show ?case
  proof (cases "length t1 \<le> i")
    case True
    from Cons.IH [OF e True Cons.prems(3)] show ?thesis by auto
  next
    case False
    then have i1: "i < length t1" by simp
    from upsert_new_row [OF u Cons.prems(2) i1] have "t1 ! i = a" .
    moreover from executemany_row [OF e i1] have "kept (t ! i) (t1 ! i)" by simp
    ultimately show ?thesis by auto
  qed
qed

lemma d_db_naive_map:
  "map datetime_utc (d_db tzdb now rid rng ivl TzNaive df) =
   map datetime_local (d_db tzdb now rid rng ivl TzNaive df)"
  by (simp add: d_db_def prepare_def Let_def to_tuple_def dt_utc_def dt_local_def)

lemma d_db_naive:
  assumes "t \<in> set (d_db tzdb now rid rng ivl TzNaive df)"
  shows "datetime_utc t = datetime_local t"
proof -
  from assms obtain i where i: "i < length (d_db tzdb now rid rng ivl TzNaive df)"
    and t: "t = d_db tzdb now rid rng ivl TzNaive df ! i"
    by (auto simp: in_set_conv_nth)
  from i have "map datetime_utc (d_db tzdb now rid rng ivl TzNaive df) ! i = datetime_utc t"
    unfolding t by (rule nth_map)
  moreover from i have "map datetime_local (d_db tzdb now rid rng ivl TzNaive df) ! i = datetime_local t"
    unfolding t by (rule nth_map)
  ultimately show ?thesis using d_db_naive_map [of tzdb now rid rng ivl df] by simp
qed

lemma upsert_distinct_keys:
  assumes "upsert r tbl = Inr t" and "distinct (keyed (map key tbl))"
  shows "distinct (keyed (map key t))"
proof -
  from upsert_map_key [OF assms(1)]
  have m: "map key t = map key tbl @
             (if key r \<in> set (map key tbl) \<and> interval r \<noteq> Null then [] else [key r])" .
  show ?thesis
  proof (cases "key r \<in> set (map key tbl) \<and> interval r \<noteq> Null")
    case True
    with assms(2) m show ?thesis by simp
  next
    case False
    then have "snd (snd (key r)) = Null \<or> key r \<notin> set (keyed (map key tbl))"
      by (auto simp: keyed_def interval_key)
    with assms(2) m False show ?thesis
      by (auto simp: keyed_def)
  qed
qed

lemma executemany_distinct_keys:
  "executemany rs tbl = Inr t \<Longrightarrow> distinct (keyed (map key tbl)) \<Longrightarrow> distinct (keyed (map key t))"
proof (induction rs arbitrary: tbl)
  case Nil
  then show ?case by simp
next
  case (Cons a rs)
  from Cons.prems(1) obtain t1 where u: "upsert a tbl = Inr t1" and e: "executemany rs t1 = Inr t"
    by (auto split: sum.splits)
  from Cons.IH [OF e upsert_distinct_keys [OF u Cons.prems(2)]] show ?case .
qed







lemma dt_utc_id [simp]: "dt_utc tzdb ty t = t"
  by (cases ty) (simp_all add: dt_utc_def)

lemma fmt_Null [simp]: "fmt t = Null \<longleftrightarrow> t = None"
  by (cases t) (simp_all add: fmt_def)


section \<open>The request loop and the frame of \<open>fetch_yahoo_chart\<close>\<close>

lemma attempt_spec:
  "attempt rp l =
     (case yields rp of
        Some j \<Rightarrow> Inl j
      | None \<Rightarrow> Inr (case raised rp of None \<Rightarrow> l | Some e \<Rightarrow> Some e))"
  by (auto simp: attempt_def yields_def raised_def split: reply.splits option.splits)

lemma length_replies [simp]: "length (replies net k hs) = length hs"
  by (induction hs arbitrary: k) simp_all

lemma attempts_spec:
  "attempts net k hs l =
     (take (Suc (failures (replies net k hs))) hs,
      (if failures (replies net k hs) < length hs
       then yields (replies net k hs ! failures (replies net k hs)) else None),
      last_raised l (take (failures (replies net k hs)) (replies net k hs)))"
proof (induction hs arbitrary: k l)
  case Nil
  then show ?case by (simp add: failures_def)
next
  case (Cons h hs)
  show ?case
  proof (cases "yields (net k h)")
    case None
    then show ?thesis
      using Cons.IH [of "Suc k" "case raised (net k h) of None \<Rightarrow> l | Some e \<Rightarrow> Some e"]
      by (simp add: attempt_spec failures_def)
  next
    case (Some j)
    then show ?thesis
      by (simp add: attempt_spec failures_def)
  qed
qed

lemma failures_all:
  "(\<forall>rp \<in> set rps. yields rp = None) \<Longrightarrow> failures rps = length rps"
  by (induction rps) (simp_all add: failures_def)

lemma failures_le: "failures rps \<le> length rps"
  by (simp add: failures_def length_takeWhile_le)

lemma those_length: "those xs = Some ys \<Longrightarrow> length ys = length xs"
  by (induction xs arbitrary: ys) (auto split: option.splits)

lemma length_make_rows [simp]:
  "length (make_rows zone symbol rng ivl dts opens highs lows closes volumes adjs) = length dts"
  by (simp add: make_rows_def)



lemma length_align [simp]: "length (align n vs) = n"
  by (simp add: align_def)

lemma length_numeric_column [simp]: "length (numeric_column pd n v) = n"
  by (simp add: numeric_column_def split: json.splits)




lemma adj_column_falsy:
  "\<not> truthy a \<Longrightarrow> adj_column pd n a = Inr (replicate n None)"
  by (simp add: adj_column_def)

lemma build_Inr:
  assumes "build pd symbol rng ivl loc = Inr (bars, meta)"
  shows "\<exists>secs dts zone opens highs lows closes volumes adjs.
           those (map (to_int64 pd) (series_values (l_timestamps loc))) = Some secs \<and>
           those (map to_datetime_s secs) = Some dts \<and>
           adj_column pd (length dts) (l_adj_list loc) = Inr adjs \<and>
           bars = sort_key b_datetime
                    (make_rows zone symbol rng ivl dts opens highs lows closes volumes adjs) \<and>
           meta = l_meta loc"
  using assms
  by (auto simp: build_def bnd_def Let_def split: json.splits option.splits sum.splits) blast+

lemma fetch_yahoo_chart_Inr:
  assumes "fetch_yahoo_chart pd net symbol rng ivl = Inr res"
  shows "\<exists>asked d last_exc loc.
           attempts net 0 (hosts @ hosts) None = (asked, Some d, last_exc) \<and>
           locate d = Inr loc \<and> build pd symbol rng ivl loc = Inr res"
  using assms
  by (auto simp: fetch_yahoo_chart_def bnd_def split: prod.splits option.splits json.splits sum.splits)


lemma set_sort_key [simp]: "set (sort_key f xs) = set xs"
  by (rule set_sort)

lemma py_get_Inr:
  "py_get j k dflt = Inr v \<Longrightarrow> \<exists>kv. j = JObj kv \<and> v = (case map_of kv k of None \<Rightarrow> dflt | Some x \<Rightarrow> x)"
  by (cases j) auto

lemma py_index0_obj:
  "py_index0 j = Inr (JObj kv) \<Longrightarrow> \<exists>xs. j = JArr (JObj kv # xs)"
proof (cases j)
  case (JArr xs)
  assume "py_index0 j = Inr (JObj kv)"
  with JArr show ?thesis by (cases xs) auto
next
  case (JStr s)
  assume "py_index0 j = Inr (JObj kv)"
  with JStr show ?thesis by (cases s) auto
qed auto

lemma at_path_append:
  "at_path j (p @ q) = (case at_path j p of None \<Rightarrow> None | Some x \<Rightarrow> at_path x q)"
  by (induction p arbitrary: j) (auto split: option.splits)

lemma locate_InrD:
  assumes "locate d = Inr loc"
  shows "\<exists>chart res result t0 i0 a0 adj_block.
           py_get d ''chart'' (JObj []) = Inr chart \<and>
           py_get chart ''result'' JNull = Inr res \<and>
           py_index0 (or_else res (JArr [JNull])) = Inr result \<and> truthy result \<and>
           py_get result ''timestamp'' JNull = Inr t0 \<and> truthy (or_else t0 (JArr [])) \<and>
           l_timestamps loc = or_else t0 (JArr []) \<and>
           py_get result ''indicators'' (JObj []) = Inr i0 \<and>
           py_get (or_else i0 (JObj [])) ''adjclose'' JNull = Inr a0 \<and>
           (if truthy a0 then py_index0 (or_else a0 (JArr [JObj []])) else Inr (JObj [])) = Inr adj_block \<and>
           py_get adj_block ''adjclose'' (JArr []) = Inr (l_adj_list loc)"
  using assms
  by (auto simp: locate_def bnd_def split: sum.splits if_splits)

lemma truthy_or_else_Nil: "truthy (or_else t (JArr [])) \<Longrightarrow> truthy t \<and> or_else t (JArr []) = t"
  by (cases "truthy t") (simp_all add: or_else_def)

lemma locate_result:
  assumes "locate d = Inr loc"
  shows "\<exists>kvr i0 a0 adj_block.
           at_path d result_path = Some (JObj kvr) \<and>
           map_of kvr ''timestamp'' = Some (l_timestamps loc) \<and>
           i0 = (case map_of kvr ''indicators'' of None \<Rightarrow> JObj [] | Some x \<Rightarrow> x) \<and>
           py_get (or_else i0 (JObj [])) ''adjclose'' JNull = Inr a0 \<and>
           (if truthy a0 then py_index0 (or_else a0 (JArr [JObj []])) else Inr (JObj [])) = Inr adj_block \<and>
           py_get adj_block ''adjclose'' (JArr []) = Inr (l_adj_list loc)"
proof -
  from locate_InrD [OF assms] obtain chart res result t0 i0 a0 adj_block where
    c: "py_get d ''chart'' (JObj []) = Inr chart" and
    r: "py_get chart ''result'' JNull = Inr res" and
    x: "py_index0 (or_else res (JArr [JNull])) = Inr result" and tr: "truthy result" and
    t: "py_get result ''timestamp'' JNull = Inr t0" and tt: "truthy (or_else t0 (JArr []))" and
    lt: "l_timestamps loc = or_else t0 (JArr [])" and
    i: "py_get result ''indicators'' (JObj []) = Inr i0" and
    a: "py_get (or_else i0 (JObj [])) ''adjclose'' JNull = Inr a0" and
    b: "(if truthy a0 then py_index0 (or_else a0 (JArr [JObj []])) else Inr (JObj [])) = Inr adj_block" and
    l: "py_get adj_block ''adjclose'' (JArr []) = Inr (l_adj_list loc)"
    by blast
  from py_get_Inr [OF t] obtain kvr where res_obj: "result = JObj kvr"
    and t0: "t0 = (case map_of kvr ''timestamp'' of None \<Rightarrow> JNull | Some x \<Rightarrow> x)" by blast
  have tres: "truthy res"
  proof (rule ccontr)
    assume "\<not> truthy res"
    then have "or_else res (JArr [JNull]) = JArr [JNull]" by (simp add: or_else_def)
    with x have "result = JNull" by simp
    with tr show False by simp
  qed
  then have "or_else res (JArr [JNull]) = res" by (simp add: or_else_def)
  with x res_obj have "py_index0 res = Inr (JObj kvr)" by simp
  from py_index0_obj [OF this] obtain xs where res_arr: "res = JArr (JObj kvr # xs)" by blast
  from py_get_Inr [OF r] obtain kvc where chart_obj: "chart = JObj kvc"
    and res_def: "res = (case map_of kvc ''result'' of None \<Rightarrow> JNull | Some x \<Rightarrow> x)" by blast
  from res_def res_arr have mres: "map_of kvc ''result'' = Some res"
    by (auto split: option.splits)
  from py_get_Inr [OF c] obtain kvd where d_obj: "d = JObj kvd"
    and chart_def: "chart = (case map_of kvd ''chart'' of None \<Rightarrow> JObj [] | Some x \<Rightarrow> x)" by blast
  have mchart: "map_of kvd ''chart'' = Some chart"
  proof (cases "map_of kvd ''chart''")
    case None
    with chart_def chart_obj have "kvc = []" by simp
    with mres show ?thesis by simp
  next
    case (Some x)
    with chart_def show ?thesis by simp
  qed
  have path: "at_path d result_path = Some (JObj kvr)"
    by (simp add: result_path_def d_obj mchart chart_obj mres res_arr)
  from truthy_or_else_Nil [OF tt] have tt0: "truthy t0" and o: "or_else t0 (JArr []) = t0"
    by simp_all
  from tt0 t0 have mt: "map_of kvr ''timestamp'' = Some t0"
    by (auto split: option.splits)
  from py_get_Inr [OF i] res_obj
  have i0: "i0 = (case map_of kvr ''indicators'' of None \<Rightarrow> JObj [] | Some x \<Rightarrow> x)" by auto
  from mt lt o have mt': "map_of kvr ''timestamp'' = Some (l_timestamps loc)" by simp
  show ?thesis
    using path mt' i0 a b l
    apply -
    apply (rule exI [of _ kvr])
    apply (rule exI [of _ i0])
    apply (rule exI [of _ a0])
    apply (rule exI [of _ adj_block])
    apply (intro conjI; assumption)
    done
qed

lemma locate_timestamps:
  assumes "locate d = Inr loc"
  shows "at_path d timestamp_path = Some (l_timestamps loc)"
proof -
  from locate_result [OF assms] obtain kvr where
    "at_path d result_path = Some (JObj kvr)" "map_of kvr ''timestamp'' = Some (l_timestamps loc)"
    by blast
  then show ?thesis
    by (simp add: timestamp_path_def at_path_append)
qed










lemma line_symbol_line_of [simp]: "line_symbol (line_of s res) = s"
  by (simp add: line_of_def split: sum.splits prod.splits)

section \<open>Claims about \<open>ingest_prices\<close>\<close>

text \<open>
  Claim C1, as amended.  Let a call of \<open>ingest_prices\<close> return on a batch whose tuples
  all carry an interval, and let the same batch, range and interval be ingested again (under
  any clock reading, run identifier and note).  Then the second call returns too, the
  \<open>prices\<close> table has as many rows as after the first call, every tuple of the batch has
  its key in the table, and every row keeps its key, \<open>datetime_local\<close> and
  \<open>datetime_tr\<close> while its nine other fields are those of the last tuple of the second
  call that conflicts with it (a row no tuple conflicts with is unchanged).
\<close>

theorem ingest_prices_rerun:
  assumes first: "ingest_prices tzdb u1 now1 df rng ivl a1 note1 con = (con1, Inr r1)"
      and ty: "dt_dtype df = Some ty"
      and nn: "\<forall>t \<in> set (d_db tzdb now1 r1 rng ivl ty df). interval t \<noteq> Null"
  shows "\<exists>con2 r2. ingest_prices tzdb u2 now2 df rng ivl a2 note2 con1 = (con2, Inr r2) \<and>
           length (prices con2) = length (prices con1) \<and>
           (\<forall>t \<in> set (d_db tzdb now2 r2 rng ivl ty df). key t \<in> set (map key (prices con2))) \<and>
           (\<forall>i < length (prices con1).
              kept (prices con2 ! i) (prices con1 ! i) \<and>
              (case filter (conflicts (prices con1 ! i)) (d_db tzdb now2 r2 rng ivl ty df) of
                 [] \<Rightarrow> prices con2 ! i = prices con1 ! i
               | c # cs \<Rightarrow> overwritten (prices con2 ! i) (last (c # cs))))"
proof -
  let ?r2 = "case a2 of None \<Rightarrow> u2 | Some x \<Rightarrow> x"
  let ?rs1 = "d_db tzdb now1 r1 rng ivl ty df"
  let ?rs2 = "d_db tzdb now2 ?r2 rng ivl ty df"
  from first ty have sh: "shape_ok df" and nd: "ty \<noteq> NotDatetime"
    and ex1: "executemany ?rs1 (prices con) = Inr (prices con1)"
    by (auto simp: ingest_prices_Inr_iff)
  from ex1 have "list_all not_null_ok ?rs1"
    using executemany_ok [of ?rs1 "prices con"] by blast
  then have "list_all not_null_ok ?rs2"
    using not_null_ok_d_db [of tzdb now1 r1 rng ivl ty df now2 ?r2] by simp
  then obtain t2 where ex2: "executemany ?rs2 (prices con1) = Inr t2"
    using executemany_ok [of ?rs2 "prices con1"] by blast
  let ?con2 = "\<lparr>prices = t2,
                runs = replace_run \<lparr>r_run_id = ?r2, r_started_at = now2, r_rng = rng, r_interval = ivl,
                                    r_n_rows = length (rows df), r_note = note2\<rparr> (runs con1)\<rparr>"
  have call2: "ingest_prices tzdb u2 now2 df rng ivl a2 note2 con1 = (?con2, Inr ?r2)"
    using ty nd sh ex2 by (simp add: ingest_prices_Inr_iff)
  have keys: "map key ?rs2 = map key ?rs1"
    by (rule d_db_keys)
  have cov: "\<forall>t \<in> set ?rs2. key t \<in> set (map key (prices con1)) \<and> interval t \<noteq> Null"
  proof
    fix t assume "t \<in> set ?rs2"
    then have "key t \<in> set (map key ?rs1)" using keys by (metis image_eqI set_map)
    then obtain t1 where t1: "t1 \<in> set ?rs1" "key t1 = key t" by auto
    from executemany_covers [OF ex1 t1(1)] t1(2) have "key t \<in> set (map key (prices con1))" by simp
    moreover from nn t1 have "interval t \<noteq> Null" by (metis interval_key)
    ultimately show "key t \<in> set (map key (prices con1)) \<and> interval t \<noteq> Null" ..
  qed
  define con2 where "con2 = ?con2"
  have p2: "prices con2 = t2" by (simp add: con2_def)
  have c2: "ingest_prices tzdb u2 now2 df rng ivl a2 note2 con1 = (con2, Inr ?r2)"
    using call2 by (simp add: con2_def)
  have same: "map key (prices con2) = map key (prices con1)"
    using executemany_same_keys [OF ex2 cov] p2 by simp
  then have len: "length (prices con2) = length (prices con1)"
    by (metis length_map)
  have pres: "\<forall>t \<in> set ?rs2. key t \<in> set (map key (prices con2))"
    using cov same by simp
  have rowsP: "\<forall>i < length (prices con1).
              kept (prices con2 ! i) (prices con1 ! i) \<and>
              (case filter (conflicts (prices con1 ! i)) ?rs2 of
                 [] \<Rightarrow> prices con2 ! i = prices con1 ! i
               | c # cs \<Rightarrow> overwritten (prices con2 ! i) (last (c # cs)))"
    using executemany_row [OF ex2] p2 by blast
  from c2 len pres rowsP show ?thesis by blast
qed

theorem ingest_prices_rerun_witness:
  "\<exists>con2 r2. ingest_prices tz_fixed ''u3'' ''2024-01-03 00:00:00'' frame_naive ''60d'' ''5m'' None None db_second
               = (con2, Inr r2) \<and>
     length (prices con2) = length (prices db_second) \<and>
     (\<forall>t \<in> set (d_db tz_fixed ''2024-01-03 00:00:00'' r2 ''60d'' ''5m'' TzNaive frame_naive).
        key t \<in> set (map key (prices con2))) \<and>
     (\<forall>i < length (prices db_second).
        kept (prices con2 ! i) (prices db_second ! i) \<and>
        (case filter (conflicts (prices db_second ! i))
                (d_db tz_fixed ''2024-01-03 00:00:00'' r2 ''60d'' ''5m'' TzNaive frame_naive) of
           [] \<Rightarrow> prices con2 ! i = prices db_second ! i
         | c # cs \<Rightarrow> overwritten (prices con2 ! i) (last (c # cs))))"
proof -
  have a: "ingest_prices tz_fixed ''u2'' ''2024-01-02 00:00:00'' frame_naive ''60d'' ''5m'' None None db_aware
             = (db_second, Inr ''u2'')"
    by code_simp
  have b: "dt_dtype frame_naive = Some TzNaive" by (simp add: frame_naive_def)
  have c: "\<forall>t \<in> set (d_db tz_fixed ''2024-01-02 00:00:00'' ''u2'' ''60d'' ''5m'' TzNaive frame_naive).
             interval t \<noteq> Null"
    by code_simp
  show ?thesis
    using ingest_prices_rerun [OF a b c, of "''u3''" "''2024-01-03 00:00:00''" None None] .
qed

text \<open>
  The claim as stated fails on \<open>datetime_local\<close>: a row first stored from a timezone-aware
  batch keeps the wall clock of that batch when a naive batch with the same key is ingested
  twice, while the value the latest call binds for the field is another one.
\<close>

theorem ingest_prices_rerun_counterexample:
  "ingest_prices tz_fixed ''u1'' ''2024-01-01 00:00:00'' frame_aware ''60d'' ''5m'' None None init_db
     = (db_aware, Inr ''u1'') \<and>
   ingest_prices tz_fixed ''u2'' ''2024-01-02 00:00:00'' frame_naive ''60d'' ''5m'' None None db_aware
     = (db_second, Inr ''u2'') \<and>
   ingest_prices tz_fixed ''u3'' ''2024-01-03 00:00:00'' frame_naive ''60d'' ''5m'' None None db_second
     = (db_third, Inr ''u3'') \<and>
   map key (prices db_third)
     = map key (d_db tz_fixed ''2024-01-03 00:00:00'' ''u3'' ''60d'' ''5m'' TzNaive frame_naive) \<and>
   map datetime_local (d_db tz_fixed ''2024-01-03 00:00:00'' ''u3'' ''60d'' ''5m'' TzNaive frame_naive)
     = [Str ''2023-11-14 22:13:20''] \<and>
   map datetime_local (prices db_third) = [Str ''2023-11-15 01:13:20'']"
  by code_simp

text \<open>
  Claim C2.  The triple \<open>(ticker, datetime_utc, interval)\<close> is meant to be unique in
  \<open>prices\<close>, and it is among the rows that carry an interval
  (\<open>executemany_distinct_keys\<close>).  The schema of \<open>init_db\<close> leaves \<open>interval\<close>
  nullable, and a NULL interval conflicts with nothing: ingesting twice a one-row batch whose
  \<open>interval\<close> column is missing-valued stores two rows with the same triple.
\<close>

theorem ingest_prices_null_interval_duplicates:
  "ingest_prices tz_fixed ''u1'' ''2024-01-01 00:00:00'' frame_null_interval ''60d'' ''5m'' None None init_db
     = (db_null1, Inr ''u1'') \<and>
   ingest_prices tz_fixed ''u2'' ''2024-01-02 00:00:00'' frame_null_interval ''60d'' ''5m'' None None db_null1
     = (db_null2, Inr ''u2'') \<and>
   map key (prices db_null2) =
     [(Str ''THYAO.IS'', Str ''2023-11-14 22:13:20'', Null),
      (Str ''THYAO.IS'', Str ''2023-11-14 22:13:20'', Null)]"
  by code_simp






text \<open>
  Claim C9.  A price row that exists before a call of \<open>ingest_prices\<close> is still there
  after it, at the same place, with the same key and the same \<open>datetime_local\<close> and
  \<open>datetime_tr\<close>; when tuples of the batch conflict with it on the primary key, the nine
  fields open, high, low, close, volume, adjclose, range_str, ingested_at and run_id are
  those of the last such tuple, and when none does the row is unchanged.
\<close>

theorem ingest_prices_conflict_update:
  assumes "ingest_prices tzdb uuid4 now df rng ivl a note con = (con', Inr r)"
      and "dt_dtype df = Some ty"
      and "i < length (prices con)"
  shows "i < length (prices con') \<and> kept (prices con' ! i) (prices con ! i) \<and>
         (case filter (conflicts (prices con ! i)) (d_db tzdb now r rng ivl ty df) of
            [] \<Rightarrow> prices con' ! i = prices con ! i
          | c # cs \<Rightarrow> overwritten (prices con' ! i) (last (c # cs)))"
  using executemany_row [OF ingest_prices_InrD(2) [OF assms(1,2)] assms(3)] .

theorem ingest_prices_conflict_update_witness:
  "0 < length (prices db_again) \<and> kept (prices db_again ! 0) (prices db_aware ! 0) \<and>
   (case filter (conflicts (prices db_aware ! 0))
           (d_db tz_fixed ''2024-01-02 00:00:00'' ''u1'' ''60d'' ''5m'' TzNaive frame_naive) of
      [] \<Rightarrow> prices db_again ! 0 = prices db_aware ! 0
    | c # cs \<Rightarrow> overwritten (prices db_again ! 0) (last (c # cs)))"
proof -
  have a: "ingest_prices tz_fixed ''u9'' ''2024-01-02 00:00:00'' frame_naive ''60d'' ''5m''
             (Some ''u1'') None db_aware = (db_again, Inr ''u1'')"
    by code_simp
  have b: "dt_dtype frame_naive = Some TzNaive" by (simp add: frame_naive_def)
  have c: "0 < length (prices db_aware)" by (simp add: db_aware_def)
  show ?thesis using ingest_prices_conflict_update [OF a b c] .
qed

text \<open>
  Claim C10, as amended.  For a batch whose \<open>datetime\<close> column is naive, the
  \<open>datetime_utc\<close> and \<open>datetime_local\<close> strings of every bound tuple are equal, so they
  are equal in every row the call adds to the table; a row that was in the table before the
  call keeps the \<open>datetime_utc\<close> and \<open>datetime_local\<close> it had.
\<close>

theorem ingest_prices_naive:
  assumes "ingest_prices tzdb uuid4 now df rng ivl a note con = (con', Inr r)"
      and "dt_dtype df = Some TzNaive"
  shows "(\<forall>t \<in> set (d_db tzdb now r rng ivl TzNaive df). datetime_utc t = datetime_local t) \<and>
         (\<forall>i. length (prices con) \<le> i \<and> i < length (prices con') \<longrightarrow>
               datetime_utc (prices con' ! i) = datetime_local (prices con' ! i)) \<and>
         (\<forall>i < length (prices con).
               datetime_utc (prices con' ! i) = datetime_utc (prices con ! i) \<and>
               datetime_local (prices con' ! i) = datetime_local (prices con ! i))"
proof -
  note ex = ingest_prices_InrD(2) [OF assms]
  have 1: "\<forall>t \<in> set (d_db tzdb now r rng ivl TzNaive df). datetime_utc t = datetime_local t"
    by (simp add: d_db_naive)
  have 2: "\<forall>i. length (prices con) \<le> i \<and> i < length (prices con') \<longrightarrow>
               datetime_utc (prices con' ! i) = datetime_local (prices con' ! i)"
  proof (intro allI impI)
    fix i assume "length (prices con) \<le> i \<and> i < length (prices con')"
    with executemany_new_rows [OF ex, of i]
    obtain t where "t \<in> set (d_db tzdb now r rng ivl TzNaive df)" "kept (prices con' ! i) t" by auto
    with 1 show "datetime_utc (prices con' ! i) = datetime_local (prices con' ! i)"
      by (simp add: kept_def)
  qed
  have 3: "\<forall>i < length (prices con).
               datetime_utc (prices con' ! i) = datetime_utc (prices con ! i) \<and>
               datetime_local (prices con' ! i) = datetime_local (prices con ! i)"
    using executemany_row [OF ex] by (simp add: kept_def)
  from 1 2 3 show ?thesis by blast
qed

theorem ingest_prices_naive_witness:
  "datetime_utc (prices db_two ! 1) = datetime_local (prices db_two ! 1) \<and>
   datetime_utc (prices db_two ! 0) = datetime_utc (prices db_daily ! 0) \<and>
   datetime_local (prices db_two ! 0) = datetime_local (prices db_daily ! 0)"
proof -
  have a: "ingest_prices tz_fixed ''u2'' ''2024-01-02 00:00:00'' frame_naive ''60d'' ''5m'' None None db_daily
             = (db_two, Inr ''u2'')"
    by code_simp
  have b: "dt_dtype frame_naive = Some TzNaive" by (simp add: frame_naive_def)
  have c: "length (prices db_daily) \<le> 1 \<and> 1 < length (prices db_two)"
    by (simp add: db_daily_def db_two_def)
  have d: "0 < length (prices db_daily)" by (simp add: db_daily_def)
  show ?thesis using ingest_prices_naive [OF a b] c d by blast
qed

text \<open>
  The claim as stated fails for a row that is already stored: after a timezone-aware batch
  (Istanbul wall clock) has stored a bar, a naive batch with the same key leaves
  \<open>datetime_local\<close> as it was, so the stored \<open>datetime_utc\<close> and \<open>datetime_local\<close>
  of that row differ.
\<close>

theorem ingest_prices_naive_counterexample:
  "ingest_prices tz_fixed ''u1'' ''2024-01-01 00:00:00'' frame_aware ''60d'' ''5m'' None None init_db
     = (db_aware, Inr ''u1'') \<and>
   dt_dtype frame_naive = Some TzNaive \<and>
   ingest_prices tz_fixed ''u2'' ''2024-01-02 00:00:00'' frame_naive ''60d'' ''5m'' None None db_aware
     = (db_second, Inr ''u2'') \<and>
   map datetime_utc (prices db_second) = [Str ''2023-11-14 22:13:20''] \<and>
   map datetime_local (prices db_second) = [Str ''2023-11-15 01:13:20'']"
  by code_simp

section \<open>Claims about \<open>fetch_yahoo_chart\<close> and \<open>fetch_batch\<close>\<close>






text \<open>
  Claim C6.  When \<open>fetch_yahoo_chart\<close> returns a frame, the response it read is the body of
  the first attempt that yielded one, that response has a timestamp value at
  \<open>chart.result[0].timestamp\<close>, and the frame has as many rows as that value has elements:
  for a timestamp array, the length of the array, whatever the open, high, low, close and
  volume arrays of the quote block hold.
\<close>

theorem fetch_yahoo_chart_row_count:
  assumes "fetch_yahoo_chart pd net symbol rng ivl = Inr (bars, meta)"
  shows "\<exists>asked d last_exc ts.
           attempts net 0 (hosts @ hosts) None = (asked, Some d, last_exc) \<and>
           yields (replies net 0 (hosts @ hosts) ! failures (replies net 0 (hosts @ hosts))) = Some d \<and>
           at_path d timestamp_path = Some ts \<and>
           length bars = length (series_values ts) \<and>
           (\<forall>xs. ts = JArr xs \<longrightarrow> length bars = length xs)"
proof -
  from fetch_yahoo_chart_Inr [OF assms] obtain asked d last_exc loc where
    a: "attempts net 0 (hosts @ hosts) None = (asked, Some d, last_exc)" and
    l: "locate d = Inr loc" and b: "build pd symbol rng ivl loc = Inr (bars, meta)"
    by blast
  from a attempts_spec [of net 0 "hosts @ hosts" None]
  have y: "yields (replies net 0 (hosts @ hosts) ! failures (replies net 0 (hosts @ hosts))) = Some d"
    by (simp split: if_splits)
  from build_Inr [OF b] obtain secs dts zone opens highs lows closes volumes adjs where
    s: "those (map (to_int64 pd) (series_values (l_timestamps loc))) = Some secs" and
    t: "those (map to_datetime_s secs) = Some dts" and
    r: "bars = sort_key b_datetime
                 (make_rows zone symbol rng ivl dts opens highs lows closes volumes adjs)"
    by blast
  from those_length [OF s] those_length [OF t] r
  have n: "length bars = length (series_values (l_timestamps loc))" by simp
  then have "\<forall>xs. l_timestamps loc = JArr xs \<longrightarrow> length bars = length xs" by simp
  with a y locate_timestamps [OF l] n show ?thesis by blast
qed

theorem fetch_yahoo_chart_row_count_witness:
  "\<exists>bars meta. fetch_yahoo_chart pd_plain (net_of chart_ragged) ''THYAO.IS'' ''60d'' ''5m'' = Inr (bars, meta) \<and>
     at_path chart_ragged timestamp_path =
       Some (JArr [JInt 1700000600, JInt 1700000000, JInt 1700000300]) \<and>
     length bars = 3"
proof -
  let ?f = "fetch_yahoo_chart pd_plain (net_of chart_ragged) ''THYAO.IS'' ''60d'' ''5m''"
  have "?f = Inr (projr ?f)" by code_simp
  then obtain bars meta where f: "?f = Inr (bars, meta)" by (cases "projr ?f") simp
  have at: "attempts (net_of chart_ragged) 0 (hosts @ hosts) None =
              ([''query1.finance.yahoo.com''], Some chart_ragged, None)"
    by code_simp
  have lo: "at_path chart_ragged timestamp_path =
              Some (JArr [JInt 1700000600, JInt 1700000000, JInt 1700000300])"
    by code_simp
  from fetch_yahoo_chart_row_count [OF f] obtain asked d last_exc ts where
    1: "attempts (net_of chart_ragged) 0 (hosts @ hosts) None = (asked, Some d, last_exc)" and
    2: "at_path d timestamp_path = Some ts" and
    3: "\<forall>xs. ts = JArr xs \<longrightarrow> length bars = length xs"
    by (elim exE conjE) (rule that; assumption)
  from 1 at have "d = chart_ragged" by simp
  with 2 lo have "ts = JArr [JInt 1700000600, JInt 1700000000, JInt 1700000300]"
    by simp
  with 3 have "length bars = 3" by simp
  with f lo show ?thesis by blast
qed

text \<open>
  Claim C7.  The data request goes to the two hosts in turn, query1 then query2, for at most
  two passes: the hosts asked are a prefix of the four, ending with the first attempt that
  yields a decodable body, whose body is the data.  \<open>last_exc\<close> is the last exception an
  attempt before that one raised (a 429 raises none and leaves it as it is).  When none of the
  four attempts yields a body, all four are made and the call fails with the RuntimeError of
  line 65 carrying that last exception.
\<close>

theorem fetch_yahoo_chart_attempts:
  assumes "attempts net 0 (hosts @ hosts) None = (asked, data, last_exc)"
  shows "asked = take (Suc (failures (replies net 0 (hosts @ hosts))))
                   [''query1.finance.yahoo.com'', ''query2.finance.yahoo.com'',
                    ''query1.finance.yahoo.com'', ''query2.finance.yahoo.com''] \<and>
         length asked \<le> 4 \<and>
         data = (if failures (replies net 0 (hosts @ hosts)) < 4
                 then yields (replies net 0 (hosts @ hosts) ! failures (replies net 0 (hosts @ hosts)))
                 else None) \<and>
         last_exc = last_raised None
                      (take (failures (replies net 0 (hosts @ hosts))) (replies net 0 (hosts @ hosts))) \<and>
         ((\<forall>rp \<in> set (replies net 0 (hosts @ hosts)). yields rp = None) \<longrightarrow>
            length asked = 4 \<and>
            fetch_yahoo_chart pd net symbol rng ivl =
              Inl (FetchFailure (last_raised None (replies net 0 (hosts @ hosts)))))"
proof -
  let ?rs = "replies net 0 (hosts @ hosts)"
  have h4: "hosts @ hosts = [''query1.finance.yahoo.com'', ''query2.finance.yahoo.com'',
                    ''query1.finance.yahoo.com'', ''query2.finance.yahoo.com'']"
    by (simp add: hosts_def)
  have l4: "length (hosts @ hosts) = 4" by (simp add: hosts_def)
  note sp = attempts_spec [of net 0 "hosts @ hosts" None]
  from assms sp have a: "asked = take (Suc (failures ?rs)) (hosts @ hosts)"
    and d: "data = (if failures ?rs < length (hosts @ hosts) then yields (?rs ! failures ?rs) else None)"
    and e: "last_exc = last_raised None (take (failures ?rs) ?rs)"
    by simp_all
  have len: "length asked \<le> 4" unfolding a using l4 by simp
  have fail: "length asked = 4 \<and>
            fetch_yahoo_chart pd net symbol rng ivl = Inl (FetchFailure (last_raised None ?rs))"
    if all: "\<forall>rp \<in> set ?rs. yields rp = None"
  proof -
    from failures_all [OF all] have f: "failures ?rs = 4" using l4 by simp
    then have "attempts net 0 (hosts @ hosts) None = (hosts @ hosts, None, last_raised None ?rs)"
      using sp l4 by simp
    then show ?thesis using l4 a f
      by (simp add: fetch_yahoo_chart_def)
  qed
  from a d e len fail show ?thesis
    unfolding h4 [symmetric] l4 [symmetric] by blast
qed

theorem fetch_yahoo_chart_attempts_witness:
  "fst (attempts net_down 0 (hosts @ hosts) None) =
     [''query1.finance.yahoo.com'', ''query2.finance.yahoo.com'',
      ''query1.finance.yahoo.com'', ''query2.finance.yahoo.com''] \<and>
   fetch_yahoo_chart pd_plain net_down ''THYAO.IS'' ''60d'' ''5m'' =
     Inl (FetchFailure (Some (RequestException ''timeout'')))"
proof -
  have a: "attempts net_down 0 (hosts @ hosts) None =
             (hosts @ hosts, None, Some (RequestException ''timeout''))"
    by code_simp
  have b: "\<forall>rp \<in> set (replies net_down 0 (hosts @ hosts)). yields rp = None"
    by code_simp
  have c: "last_raised None (replies net_down 0 (hosts @ hosts)) = Some (RequestException ''timeout'')"
    by code_simp
  have d: "hosts @ hosts = [''query1.finance.yahoo.com'', ''query2.finance.yahoo.com'',
      ''query1.finance.yahoo.com'', ''query2.finance.yahoo.com'']"
    by (simp add: hosts_def)
  from fetch_yahoo_chart_attempts [OF a, of pd_plain "''THYAO.IS''" "''60d''" "''5m''"] b
  have "fetch_yahoo_chart pd_plain net_down ''THYAO.IS'' ''60d'' ''5m'' =
          Inl (FetchFailure (last_raised None (replies net_down 0 (hosts @ hosts))))"
    by blast
  with a c d show ?thesis by simp
qed

lemma attempts_flaky_example:
  "attempts net_flaky 0 (hosts @ hosts) None =
     ([''query1.finance.yahoo.com'', ''query2.finance.yahoo.com'', ''query1.finance.yahoo.com''],
      Some chart_example, Some (RequestException ''timeout''))"
  by code_simp

end
